theory Spec2Isabelle
  imports Main
begin

section \<open>The notebook \<^verbatim>\<open>state.ipynb\<close> as a program\<close>

text \<open>
  The source is a Jupyter notebook: seven code cells of Python, run top to bottom, with
  markdown between them and the printed output of each cell recorded under it. Nothing
  else of the repository is among the sources, so the program that is modelled is the
  notebook itself: its statements, in the order of the cells, and the values its recorded
  outputs print.

  Several of the properties speak of which constructs the program contains (a call that
  takes a cancellation token, an exception handler, a loop). They are properties of the
  program text, so the statements are kept as data: a datatype of the Python expressions
  and statements, the seven cells as values of it, and executable functions that walk
  them. The datatype has the constructs the notebook uses and the ones the properties say
  are absent, so that "no loop" is a statement that could fail.
\<close>

subsection \<open>Expressions and statements\<close>

text \<open>
  A keyword argument \<^verbatim>\<open>name=value\<close> stands in the argument list of its call, as
  Python's own syntax tree has it.
\<close>

datatype expr =
    Name string
  | Str string
  | Num int
  | Attribute expr string
  | Call expr "expr list"
  | Keyword string expr
  | ListE "expr list"
  | Await expr
  | Compare expr string expr
  | BoolOp string "expr list"
  | IfExp expr expr expr
  | Lambda "string list" expr
  | ListComp expr string expr

datatype stmt =
    ImportFrom string "string list"
  | Import string
  | Assign string expr
  | Expr expr
  | With expr string "stmt list"
  | If expr "stmt list" "stmt list"
  | While expr "stmt list"
  | For string expr "stmt list"
  | Try "stmt list" "stmt list" "stmt list"
  | Raise expr
  | Assert expr
  | FunctionDef string "string list" "stmt list"
  | ClassDef string "stmt list"

subsection \<open>The code cells\<close>

definition model_client_ctor :: expr where
  "model_client_ctor =
     Call (Name ''OpenAIChatCompletionClient'') [Keyword ''model'' (Str ''gpt-4o-2024-08-06'')]"

definition assistant_agent_ctor :: expr where
  "assistant_agent_ctor =
     Call (Name ''AssistantAgent'')
       [Keyword ''name'' (Str ''assistant_agent''),
        Keyword ''system_message'' (Str ''You are a helpful assistant''),
        Keyword ''model_client'' (Name ''model_client'')]"

definition round_robin_ctor :: expr where
  "round_robin_ctor =
     Call (Name ''RoundRobinGroupChat'')
       [ListE [Name ''assistant_agent''],
        Keyword ''termination_condition''
          (Call (Name ''MaxMessageTermination'') [Keyword ''max_messages'' (Num 2)])]"

definition text_message :: "string \<Rightarrow> expr" where
  "text_message content =
     Call (Name ''TextMessage'') [Keyword ''content'' (Str content), Keyword ''source'' (Str ''user'')]"

definition last_line_task :: string where
  "last_line_task = ''What was the last line of the poem you wrote?''"

text \<open>Cell 1 (lines 36 to 57): an agent answers one message.\<close>

definition cell1 :: "stmt list" where
  "cell1 =
    [ImportFrom ''autogen_agentchat.agents'' [''AssistantAgent''],
     ImportFrom ''autogen_agentchat.conditions'' [''MaxMessageTermination''],
     ImportFrom ''autogen_agentchat.messages'' [''TextMessage''],
     ImportFrom ''autogen_agentchat.teams'' [''RoundRobinGroupChat''],
     ImportFrom ''autogen_agentchat.ui'' [''Console''],
     ImportFrom ''autogen_core'' [''CancellationToken''],
     ImportFrom ''autogen_ext.models.openai'' [''OpenAIChatCompletionClient''],
     Assign ''model_client'' model_client_ctor,
     Assign ''assistant_agent'' assistant_agent_ctor,
     Assign ''response''
       (Await (Call (Attribute (Name ''assistant_agent'') ''on_messages'')
          [ListE [text_message ''Write a 3 line poem on lake tangayika''],
           Call (Name ''CancellationToken'') []])),
     Expr (Call (Name ''print'') [Attribute (Name ''response'') ''chat_message'']),
     Expr (Await (Call (Attribute (Name ''model_client'') ''close'') []))]"

text \<open>Cell 2 (lines 74 and 75): the agent's state is saved and printed.\<close>

definition cell2 :: "stmt list" where
  "cell2 =
    [Assign ''agent_state'' (Await (Call (Attribute (Name ''assistant_agent'') ''save_state'') [])),
     Expr (Call (Name ''print'') [Name ''agent_state''])]"

text \<open>Cell 3 (lines 92 to 106): a new agent loads the state and answers.\<close>

definition cell3 :: "stmt list" where
  "cell3 =
    [Assign ''model_client'' model_client_ctor,
     Assign ''new_assistant_agent'' assistant_agent_ctor,
     Expr (Await (Call (Attribute (Name ''new_assistant_agent'') ''load_state'') [Name ''agent_state''])),
     Assign ''response''
       (Await (Call (Attribute (Name ''new_assistant_agent'') ''on_messages'')
          [ListE [text_message ''What was the last line of the previous poem you wrote''],
           Call (Name ''CancellationToken'') []])),
     Expr (Call (Name ''print'') [Attribute (Name ''response'') ''chat_message'']),
     Expr (Await (Call (Attribute (Name ''model_client'') ''close'') []))]"

text \<open>Cell 4 (lines 158 to 175): a team of one agent runs a task; its state is saved.\<close>

definition cell4 :: "stmt list" where
  "cell4 =
    [Assign ''model_client'' model_client_ctor,
     Assign ''assistant_agent'' assistant_agent_ctor,
     Assign ''agent_team'' round_robin_ctor,
     Assign ''stream''
       (Call (Attribute (Name ''agent_team'') ''run_stream'')
          [Keyword ''task'' (Str ''Write a beautiful poem 3-line about lake tangayika'')]),
     Expr (Await (Call (Name ''Console'') [Name ''stream''])),
     Assign ''team_state'' (Await (Call (Attribute (Name ''agent_team'') ''save_state'') []))]"

text \<open>Cell 5 (lines 219 to 221): the team is reset and asked about the poem.\<close>

definition cell5 :: "stmt list" where
  "cell5 =
    [Expr (Await (Call (Attribute (Name ''agent_team'') ''reset'') [])),
     Assign ''stream''
       (Call (Attribute (Name ''agent_team'') ''run_stream'') [Keyword ''task'' (Str last_line_task)]),
     Expr (Await (Call (Name ''Console'') [Name ''stream'']))]"

text \<open>Cell 6 (lines 267 to 272): the saved state is printed, loaded, and the team asked again.\<close>

definition cell6 :: "stmt list" where
  "cell6 =
    [Expr (Call (Name ''print'') [Name ''team_state'']),
     Expr (Await (Call (Attribute (Name ''agent_team'') ''load_state'') [Name ''team_state''])),
     Assign ''stream''
       (Call (Attribute (Name ''agent_team'') ''run_stream'') [Keyword ''task'' (Str last_line_task)]),
     Expr (Await (Call (Name ''Console'') [Name ''stream'']))]"

text \<open>Cell 7 (lines 319 to 334): the state goes to a file and back, into a new team.\<close>

definition cell7 :: "stmt list" where
  "cell7 =
    [Import ''json'',
     With (Call (Name ''open'') [Str ''coding/team_state.json'', Str ''w'']) ''f''
       [Expr (Call (Attribute (Name ''json'') ''dump'') [Name ''team_state'', Name ''f''])],
     With (Call (Name ''open'') [Str ''coding/team_state.json'', Str ''r'']) ''f''
       [Assign ''team_state'' (Call (Attribute (Name ''json'') ''load'') [Name ''f''])],
     Assign ''new_agent_team'' round_robin_ctor,
     Expr (Await (Call (Attribute (Name ''new_agent_team'') ''load_state'') [Name ''team_state''])),
     Assign ''stream''
       (Call (Attribute (Name ''new_agent_team'') ''run_stream'') [Keyword ''task'' (Str last_line_task)]),
     Expr (Await (Call (Name ''Console'') [Name ''stream''])),
     Expr (Await (Call (Attribute (Name ''model_client'') ''close'') []))]"

definition notebook :: "stmt list" where
  "notebook = cell1 @ cell2 @ cell3 @ cell4 @ cell5 @ cell6 @ cell7"

subsection \<open>Walking the program\<close>

text \<open>Every expression that occurs in an expression, itself first, in source order.\<close>

fun subexprs :: "expr \<Rightarrow> expr list" where
  "subexprs (Name n) = [Name n]"
| "subexprs (Str s) = [Str s]"
| "subexprs (Num i) = [Num i]"
| "subexprs (Attribute e a) = Attribute e a # subexprs e"
| "subexprs (Call f args) = Call f args # subexprs f @ concat (map subexprs args)"
| "subexprs (Keyword k e) = Keyword k e # subexprs e"
| "subexprs (ListE es) = ListE es # concat (map subexprs es)"
| "subexprs (Await e) = Await e # subexprs e"
| "subexprs (Compare l opr r) = Compare l opr r # subexprs l @ subexprs r"
| "subexprs (BoolOp opr es) = BoolOp opr es # concat (map subexprs es)"
| "subexprs (IfExp c t e) = IfExp c t e # subexprs c @ subexprs t @ subexprs e"
| "subexprs (Lambda ps e) = Lambda ps e # subexprs e"
| "subexprs (ListComp e v src) = ListComp e v src # subexprs e @ subexprs src"

text \<open>Every statement of a statement, itself first, the bodies of compound statements included.\<close>

fun substmts :: "stmt \<Rightarrow> stmt list" where
  "substmts (With e v body) = With e v body # concat (map substmts body)"
| "substmts (If c t e) = If c t e # concat (map substmts t) @ concat (map substmts e)"
| "substmts (While c body) = While c body # concat (map substmts body)"
| "substmts (For v e body) = For v e body # concat (map substmts body)"
| "substmts (Try body handlers final) =
     Try body handlers final # concat (map substmts body) @ concat (map substmts handlers)
       @ concat (map substmts final)"
| "substmts (FunctionDef f ps body) = FunctionDef f ps body # concat (map substmts body)"
| "substmts (ClassDef c body) = ClassDef c body # concat (map substmts body)"
| "substmts s = [s]"

text \<open>The expressions a statement holds directly (not those of its body).\<close>

fun own_exprs :: "stmt \<Rightarrow> expr list" where
  "own_exprs (ImportFrom m ns) = []"
| "own_exprs (Import m) = []"
| "own_exprs (Assign v e) = [e]"
| "own_exprs (Expr e) = [e]"
| "own_exprs (With e v body) = [e]"
| "own_exprs (If c t e) = [c]"
| "own_exprs (While c body) = [c]"
| "own_exprs (For v e body) = [e]"
| "own_exprs (Try body handlers final) = []"
| "own_exprs (Raise e) = [e]"
| "own_exprs (Assert e) = [e]"
| "own_exprs (FunctionDef f ps body) = []"
| "own_exprs (ClassDef c body) = []"

definition all_stmts :: "stmt list \<Rightarrow> stmt list" where
  "all_stmts prog = concat (map substmts prog)"

definition all_exprs :: "stmt list \<Rightarrow> expr list" where
  "all_exprs prog = concat (map subexprs (concat (map own_exprs (all_stmts prog))))"

subsection \<open>Cancellation tokens\<close>

text \<open>
  A token is built by calling the class \<^verbatim>\<open>CancellationToken\<close> with no argument. A call
  receives a token when one of its arguments, positional or by keyword, is such a
  construction, or a variable that the program has assigned one to.
\<close>

definition token_ctor :: expr where
  "token_ctor = Call (Name ''CancellationToken'') []"

fun token_var_of :: "stmt \<Rightarrow> string list" where
  "token_var_of (Assign v e) = (if e = token_ctor then [v] else [])"
| "token_var_of s = []"

definition token_vars :: "stmt list \<Rightarrow> string list" where
  "token_vars prog = concat (map token_var_of (all_stmts prog))"

fun arg_value :: "expr \<Rightarrow> expr" where
  "arg_value (Keyword k e) = e"
| "arg_value e = e"

definition is_token :: "string list \<Rightarrow> expr \<Rightarrow> bool" where
  "is_token tvs e = (e = token_ctor \<or> list_ex (\<lambda>v. e = Name v) tvs)"

fun receives_token :: "string list \<Rightarrow> expr \<Rightarrow> bool" where
  "receives_token tvs (Call f args) = list_ex (\<lambda>a. is_token tvs (arg_value a)) args"
| "receives_token tvs e = False"

definition token_calls :: "stmt list \<Rightarrow> expr list" where
  "token_calls prog = filter (receives_token (token_vars prog)) (all_exprs prog)"

text \<open>What a call is made on, and with which arguments.\<close>

fun callee :: "expr \<Rightarrow> expr" where
  "callee (Call f args) = f"
| "callee e = e"

fun call_args :: "expr \<Rightarrow> expr list" where
  "call_args (Call f args) = args"
| "call_args e = []"

text \<open>
  Cancellation logic other than handing a token over: a method of the token's interface
  (\<^verbatim>\<open>cancel\<close>, \<^verbatim>\<open>is_cancelled\<close>, \<^verbatim>\<open>add_callback\<close>, \<^verbatim>\<open>link_future\<close>) named anywhere.
\<close>

fun names_cancellation :: "expr \<Rightarrow> bool" where
  "names_cancellation (Attribute e a) =
     (a = ''cancel'' \<or> a = ''is_cancelled'' \<or> a = ''add_callback'' \<or> a = ''link_future'')"
| "names_cancellation e = False"

subsection \<open>Kinds of statements and expressions\<close>

fun is_try :: "stmt \<Rightarrow> bool" where
  "is_try (Try body handlers final) = True"
| "is_try s = False"

fun is_raise :: "stmt \<Rightarrow> bool" where
  "is_raise (Raise e) = True"
| "is_raise s = False"

fun is_branch :: "stmt \<Rightarrow> bool" where
  "is_branch (If c t e) = True"
| "is_branch (Assert e) = True"
| "is_branch s = False"

fun is_loop :: "stmt \<Rightarrow> bool" where
  "is_loop (While c body) = True"
| "is_loop (For v e body) = True"
| "is_loop s = False"

fun is_definition :: "stmt \<Rightarrow> bool" where
  "is_definition (FunctionDef f ps body) = True"
| "is_definition (ClassDef c body) = True"
| "is_definition s = False"

text \<open>An expression that tests a value, chooses by one, repeats, or defines a function.\<close>

fun is_test :: "expr \<Rightarrow> bool" where
  "is_test (Compare l opr r) = True"
| "is_test (BoolOp opr es) = True"
| "is_test (IfExp c t e) = True"
| "is_test e = False"

fun is_control_expr :: "expr \<Rightarrow> bool" where
  "is_control_expr (IfExp c t e) = True"
| "is_control_expr (BoolOp opr es) = True"
| "is_control_expr (Lambda ps e) = True"
| "is_control_expr (ListComp e v src) = True"
| "is_control_expr e = False"

subsection \<open>Calls and the flow of data\<close>

text \<open>The names a program imports, and the names it calls as functions or classes.\<close>

fun imported :: "stmt \<Rightarrow> string list" where
  "imported (ImportFrom m ns) = ns"
| "imported (Import m) = [m]"
| "imported s = []"

fun called_name :: "expr \<Rightarrow> string list" where
  "called_name (Call (Name f) args) = [f]"
| "called_name e = []"

fun called_method :: "expr \<Rightarrow> string list" where
  "called_method (Call (Attribute e m) args) = [m]"
| "called_method e = []"

text \<open>Python's built-in functions that the notebook uses without importing them.\<close>

definition builtins :: "string list" where
  "builtins = [''print'', ''open'']"

text \<open>The variables an expression reads. A keyword's name is not a variable.\<close>

fun var_read :: "expr \<Rightarrow> string list" where
  "var_read (Name n) = [n]"
| "var_read e = []"

definition reads :: "expr \<Rightarrow> string list" where
  "reads e = concat (map var_read (subexprs e))"

text \<open>
  The steps of a statement in the order Python runs them, each with the variables it
  reads and the variables it binds. A \<^verbatim>\<open>with\<close> statement evaluates its expression,
  binds the result and runs its body; a name bound in the body stays bound after it.
  The bodies of the other compound statements are listed one after the other.
\<close>

fun flow :: "stmt \<Rightarrow> (string list \<times> string list) list" where
  "flow (ImportFrom m ns) = [([], ns)]"
| "flow (Import m) = [([], [m])]"
| "flow (Assign v e) = [(reads e, [v])]"
| "flow (Expr e) = [(reads e, [])]"
| "flow (With e v body) = (reads e, [v]) # concat (map flow body)"
| "flow (If c t e) = (reads c, []) # concat (map flow t) @ concat (map flow e)"
| "flow (While c body) = (reads c, []) # concat (map flow body)"
| "flow (For v e body) = (reads e, [v]) # concat (map flow body)"
| "flow (Try body handlers final) =
     concat (map flow body) @ concat (map flow handlers) @ concat (map flow final)"
| "flow (Raise e) = [(reads e, [])]"
| "flow (Assert e) = [(reads e, [])]"
| "flow (FunctionDef f ps body) = [([], [f])]"
| "flow (ClassDef c body) = [([], [c])]"

text \<open>Every step reads only names that an earlier step has bound.\<close>

fun defined_before_use :: "string list \<Rightarrow> (string list \<times> string list) list \<Rightarrow> bool" where
  "defined_before_use env [] = True"
| "defined_before_use env ((rs, ws) # rest) =
     (list_all (List.member env) rs \<and> defined_before_use (ws @ env) rest)"

text \<open>The statements a straight-line program is made of.\<close>

fun is_simple :: "stmt \<Rightarrow> bool" where
  "is_simple (ImportFrom m ns) = True"
| "is_simple (Import m) = True"
| "is_simple (Assign v e) = True"
| "is_simple (Expr e) = True"
| "is_simple (With e v body) = True"
| "is_simple s = False"

subsection \<open>Awaited calls\<close>

text \<open>
  The name a call is made under: the function's or class's name, or the method's name.
\<close>

fun call_name :: "expr \<Rightarrow> string list" where
  "call_name (Call (Name f) args) = [f]"
| "call_name (Call (Attribute e m) args) = [m]"
| "call_name e = []"

fun is_await :: "expr \<Rightarrow> bool" where
  "is_await (Await e) = True"
| "is_await e = False"

fun await_operand :: "expr \<Rightarrow> expr list" where
  "await_operand (Await e) = [e]"
| "await_operand e = []"

fun is_call :: "expr \<Rightarrow> bool" where
  "is_call (Call f args) = True"
| "is_call e = False"

definition awaits :: "stmt list \<Rightarrow> expr list" where
  "awaits prog = filter is_await (all_exprs prog)"

text \<open>The calls a program awaits: the operands of its \<^verbatim>\<open>await\<close> expressions.\<close>

definition awaited :: "stmt list \<Rightarrow> expr list" where
  "awaited prog = concat (map await_operand (awaits prog))"

text \<open>
  The calls of an expression that are not the operand of an \<^verbatim>\<open>await\<close>: Python runs such
  a call to its end on the spot when the function is an ordinary one, and only builds a
  coroutine or a stream, without running it, when the function is asynchronous.
\<close>

fun bare_calls :: "expr \<Rightarrow> expr list" where
  "bare_calls (Name n) = []"
| "bare_calls (Str s) = []"
| "bare_calls (Num i) = []"
| "bare_calls (Attribute e a) = bare_calls e"
| "bare_calls (Call f args) = Call f args # bare_calls f @ concat (map bare_calls args)"
| "bare_calls (Keyword k e) = bare_calls e"
| "bare_calls (ListE es) = concat (map bare_calls es)"
| "bare_calls (Await (Call f args)) = bare_calls f @ concat (map bare_calls args)"
| "bare_calls (Await e) = bare_calls e"
| "bare_calls (Compare l opr r) = bare_calls l @ bare_calls r"
| "bare_calls (BoolOp opr es) = concat (map bare_calls es)"
| "bare_calls (IfExp c t e) = bare_calls c @ bare_calls t @ bare_calls e"
| "bare_calls (Lambda ps e) = bare_calls e"
| "bare_calls (ListComp e v src) = bare_calls e @ bare_calls src"

definition unawaited :: "stmt list \<Rightarrow> expr list" where
  "unawaited prog = concat (map bare_calls (concat (map own_exprs (all_stmts prog))))"

text \<open>
  The \<^verbatim>\<open>await\<close> expressions that are the whole expression of a statement. Python
  finishes a statement before it starts the next, so such an \<^verbatim>\<open>await\<close> has returned
  before anything else of the program runs.
\<close>

definition statement_awaits :: "stmt list \<Rightarrow> expr list" where
  "statement_awaits prog = filter is_await (concat (map own_exprs (all_stmts prog)))"

text \<open>The \<^verbatim>\<open>await\<close> expressions inside the operand of another \<^verbatim>\<open>await\<close>.\<close>

definition nested_awaits :: "stmt list \<Rightarrow> expr list" where
  "nested_awaits prog = filter is_await (concat (map subexprs (awaited prog)))"

text \<open>The \<^verbatim>\<open>await\<close> expressions in the body of a \<^verbatim>\<open>with\<close> block, where a file is open.\<close>

fun with_body :: "stmt \<Rightarrow> stmt list" where
  "with_body (With e v body) = body"
| "with_body s = []"

definition awaits_in_with :: "stmt list \<Rightarrow> expr list" where
  "awaits_in_with prog = awaits (concat (map with_body (all_stmts prog)))"

text \<open>
  What would start work that runs beside the program: Python's \<^verbatim>\<open>asyncio\<close>, thread and
  process interfaces. A program that has none of these words, as a variable, an attribute,
  an imported name or a module, spawns nothing.
\<close>

definition concurrency_names :: "string list" where
  "concurrency_names =
     [''asyncio'', ''gather'', ''create_task'', ''ensure_future'', ''TaskGroup'', ''wait'',
      ''as_completed'', ''run_coroutine_threadsafe'', ''run_in_executor'', ''to_thread'',
      ''threading'', ''Thread'', ''multiprocessing'', ''Process'', ''concurrent'',
      ''ThreadPoolExecutor'', ''ProcessPoolExecutor'', ''submit'', ''Lock'', ''Semaphore'',
      ''Event'', ''Queue'']"

fun word_of :: "expr \<Rightarrow> string list" where
  "word_of (Name n) = [n]"
| "word_of (Attribute e a) = [a]"
| "word_of e = []"

fun import_words :: "stmt \<Rightarrow> string list" where
  "import_words (ImportFrom m ns) = m # ns"
| "import_words (Import m) = [m]"
| "import_words s = []"

definition words :: "stmt list \<Rightarrow> string list" where
  "words prog = concat (map import_words (all_stmts prog)) @ concat (map word_of (all_exprs prog))"

text \<open>
  A stream is built by \<^verbatim>\<open>run_stream\<close> without \<^verbatim>\<open>await\<close> and runs only while it is
  consumed. In a list of statements every stream is consumed at once: the statement that
  binds one is followed directly by the awaited \<^verbatim>\<open>Console\<close> call on that variable.
\<close>

fun is_stream_call :: "expr \<Rightarrow> bool" where
  "is_stream_call (Call (Attribute e m) args) = (m = ''run_stream'')"
| "is_stream_call e = False"

fun streams_consumed :: "stmt list \<Rightarrow> bool" where
  "streams_consumed [] = True"
| "streams_consumed [Assign v e] = (\<not> is_stream_call e)"
| "streams_consumed (Assign v e # s # rest) =
     ((if is_stream_call e then s = Expr (Await (Call (Name ''Console'') [Name v])) else True)
      \<and> streams_consumed (s # rest))"
| "streams_consumed (s # rest) = streams_consumed rest"

fun binds_stream :: "stmt \<Rightarrow> bool" where
  "binds_stream (Assign v e) = is_stream_call e"
| "binds_stream s = False"

section \<open>The values the notebook prints\<close>

text \<open>
  A state is a Python dictionary of strings, integers, \<^verbatim>\<open>None\<close>, lists and
  dictionaries. A dictionary keeps its items in insertion order, which is the order
  \<^verbatim>\<open>print\<close> shows, so it is a list of pairs.
\<close>

datatype pyval =
    PNone
  | PInt int
  | PStr string
  | PList "pyval list"
  | PDict "(string \<times> pyval) list"

fun items :: "pyval \<Rightarrow> (string \<times> pyval) list" where
  "items (PDict kvs) = kvs"
| "items v = []"

definition keys :: "pyval \<Rightarrow> string list" where
  "keys v = map fst (items v)"

definition get :: "pyval \<Rightarrow> string \<Rightarrow> pyval option" where
  "get v k = map_of (items v) k"

fun is_dict :: "pyval \<Rightarrow> bool" where
  "is_dict (PDict kvs) = True"
| "is_dict v = False"

fun dicts_in_list :: "pyval option \<Rightarrow> bool" where
  "dicts_in_list (Some (PList vs)) = list_all is_dict vs"
| "dicts_in_list v = False"

fun dicts_in_dict :: "pyval option \<Rightarrow> bool" where
  "dicts_in_dict (Some (PDict kvs)) = list_all is_dict (map snd kvs)"
| "dicts_in_dict v = False"

subsection \<open>The recorded outputs\<close>

text \<open>The answer of the model in cell 1 (lines 29 to 31) and in cell 4 (lines 144 to 146).\<close>

definition poem1 :: string where
  "poem1 = ''In Tanganyika's embrace so wide and deep,  \<newline>Ancient waters cradle secrets they keep,  \<newline>Echoes of time where horizons sleep.  ''"

definition poem2 :: string where
  "poem2 = ''In Tanganyika's gleam, beneath the azure skies,  \<newline>Whispers of ancient waters, in tranquil guise,  \<newline>Nature's mirror, where dreams and serenity lie.''"

definition poem_task :: string where
  "poem_task = ''Write a beautiful poem 3-line about lake tangayika''"

text \<open>What \<^verbatim>\<open>print(agent_state)\<close> shows in cell 2 (line 69).\<close>

definition agent_state_printed :: pyval where
  "agent_state_printed =
     PDict
       [(''type'', PStr ''AssistantAgentState''),
        (''version'', PStr ''1.0.0''),
        (''llm_messages'', PList
           [PDict [(''content'', PStr ''Write a 3 line poem on lake tangayika''),
                   (''source'', PStr ''user''),
                   (''type'', PStr ''UserMessage'')],
            PDict [(''content'', PStr poem1),
                   (''source'', PStr ''assistant_agent''),
                   (''type'', PStr ''AssistantMessage'')]])]"

text \<open>What \<^verbatim>\<open>print(team_state)\<close> shows in cell 6 (line 240).\<close>

definition printed_team_id :: string where
  "printed_team_id = ''a55364ad-86fd-46ab-9449-dcb5260b1e06''"

definition team_state_printed :: pyval where
  "team_state_printed =
     PDict
       [(''type'', PStr ''TeamState''),
        (''version'', PStr ''1.0.0''),
        (''agent_states'', PDict
           [(''group_chat_manager/'' @ printed_team_id, PDict
               [(''type'', PStr ''RoundRobinManagerState''),
                (''version'', PStr ''1.0.0''),
                (''message_thread'', PList
                   [PDict [(''source'', PStr ''user''),
                           (''models_usage'', PNone),
                           (''content'', PStr poem_task),
                           (''type'', PStr ''TextMessage'')],
                    PDict [(''source'', PStr ''assistant_agent''),
                           (''models_usage'', PDict
                              [(''prompt_tokens'', PInt 29), (''completion_tokens'', PInt 34)]),
                           (''content'', PStr poem2),
                           (''type'', PStr ''TextMessage'')]]),
                (''current_turn'', PInt 0),
                (''next_speaker_index'', PInt 0)]),
            (''collect_output_messages/'' @ printed_team_id, PDict []),
            (''assistant_agent/'' @ printed_team_id, PDict
               [(''type'', PStr ''ChatAgentContainerState''),
                (''version'', PStr ''1.0.0''),
                (''agent_state'', PDict
                   [(''type'', PStr ''AssistantAgentState''),
                    (''version'', PStr ''1.0.0''),
                    (''llm_messages'', PList
                       [PDict [(''content'', PStr poem_task),
                               (''source'', PStr ''user''),
                               (''type'', PStr ''UserMessage'')],
                        PDict [(''content'', PStr poem2),
                               (''source'', PStr ''assistant_agent''),
                               (''type'', PStr ''AssistantMessage'')]])]),
                (''message_buffer'', PList [])])]),
        (''team_id'', PStr printed_team_id)]"

text \<open>
  The snapshots the program obtains: \<^verbatim>\<open>save_state\<close> is called twice, on the agent in
  cell 2 and on the team in cell 4, and both results are printed. The agent's snapshot
  that the team's snapshot holds for its participant is a third.
\<close>

definition nested_agent_state :: "pyval option" where
  "nested_agent_state =
     Option.bind (get team_state_printed ''agent_states'')
       (\<lambda>sts. Option.bind (get sts (''assistant_agent/'' @ printed_team_id))
          (\<lambda>c. get c ''agent_state''))"

section \<open>The library's agents and teams\<close>

text \<open>
  Modelled from the spec: the classes \<^verbatim>\<open>AssistantAgent\<close> and \<^verbatim>\<open>RoundRobinGroupChat\<close> of
  the library. The notebook imports and calls them; their code is not among the sources.
  The notebook says of an agent that "its state consists of the model_context", and its
  printed snapshots show what a team holds: a team id, a message thread with a turn
  counter and a speaker index, and one container for each participant with the agent
  and a message buffer. Messages are those the printed snapshots show.
\<close>

datatype llm_message =
    UserMessage string string
  | AssistantMessage string string

datatype chat_message = TextMessage string "(int \<times> int) option" string

record agent =
  agent_name :: string
  system_message :: string
  model_context :: "llm_message list"

record container =
  agent :: agent
  message_buffer :: "chat_message list"

record team =
  team_id :: string
  participants :: "container list"
  message_thread :: "chat_message list"
  current_turn :: int
  next_speaker_index :: int

text \<open>
  Modelled from the spec: the constructors, which the library defines. A new agent has
  an empty context; a new team has an empty thread and one empty container for each
  agent it is given. The team's id is drawn by the library, so it is a parameter here.
\<close>

definition AssistantAgent :: "string \<Rightarrow> string \<Rightarrow> agent" where
  "AssistantAgent n sm = \<lparr>agent_name = n, system_message = sm, model_context = []\<rparr>"

definition RoundRobinGroupChat :: "string \<Rightarrow> agent list \<Rightarrow> team" where
  "RoundRobinGroupChat tid as =
     \<lparr>team_id = tid, participants = map (\<lambda>a. \<lparr>agent = a, message_buffer = []\<rparr>) as,
      message_thread = [], current_turn = 0, next_speaker_index = 0\<rparr>"

subsection \<open>Saving\<close>

text \<open>
  Modelled from the spec: \<^verbatim>\<open>save_state\<close> of an agent and of a team, which the library
  defines. The specification calls the result "nested key-value structures (e.g., fields
  such as \<^verbatim>\<open>type\<close>, \<^verbatim>\<open>version\<close>, \<^verbatim>\<open>llm_messages\<close>, \<^verbatim>\<open>agent_states\<close>, \<^verbatim>\<open>team_id\<close>)";
  the notebook says "When we call \<^verbatim>\<open>save_state\<close> on a team, it saves the state of all
  the agents in the team". The layout, field by field, is that of the two printed
  snapshots (lines 69 and 240): the lemmas \<open>save_state_agent_recorded\<close> and
  \<open>save_state_team_recorded\<close> below check that the model prints exactly them.
\<close>

fun dump_llm :: "llm_message \<Rightarrow> pyval" where
  "dump_llm (UserMessage c s) =
     PDict [(''content'', PStr c), (''source'', PStr s), (''type'', PStr ''UserMessage'')]"
| "dump_llm (AssistantMessage c s) =
     PDict [(''content'', PStr c), (''source'', PStr s), (''type'', PStr ''AssistantMessage'')]"

fun dump_usage :: "(int \<times> int) option \<Rightarrow> pyval" where
  "dump_usage None = PNone"
| "dump_usage (Some (p, c)) = PDict [(''prompt_tokens'', PInt p), (''completion_tokens'', PInt c)]"

fun dump_chat :: "chat_message \<Rightarrow> pyval" where
  "dump_chat (TextMessage s u c) =
     PDict [(''source'', PStr s), (''models_usage'', dump_usage u), (''content'', PStr c),
            (''type'', PStr ''TextMessage'')]"

definition save_state_agent :: "agent \<Rightarrow> pyval" where
  "save_state_agent a =
     PDict [(''type'', PStr ''AssistantAgentState''),
            (''version'', PStr ''1.0.0''),
            (''llm_messages'', PList (map dump_llm (model_context a)))]"

definition container_state :: "container \<Rightarrow> pyval" where
  "container_state c =
     PDict [(''type'', PStr ''ChatAgentContainerState''),
            (''version'', PStr ''1.0.0''),
            (''agent_state'', save_state_agent (agent c)),
            (''message_buffer'', PList (map dump_chat (message_buffer c)))]"

definition manager_state :: "team \<Rightarrow> pyval" where
  "manager_state t =
     PDict [(''type'', PStr ''RoundRobinManagerState''),
            (''version'', PStr ''1.0.0''),
            (''message_thread'', PList (map dump_chat (message_thread t))),
            (''current_turn'', PInt (current_turn t)),
            (''next_speaker_index'', PInt (next_speaker_index t))]"

text \<open>The key of an entry of \<^verbatim>\<open>agent_states\<close>: the name, a slash, the team id (line 240).\<close>

definition agent_key :: "string \<Rightarrow> string \<Rightarrow> string" where
  "agent_key tid n = n @ ''/'' @ tid"

definition participant_entry :: "string \<Rightarrow> container \<Rightarrow> string \<times> pyval" where
  "participant_entry tid c = (agent_key tid (agent_name (agent c)), container_state c)"

definition agent_states :: "team \<Rightarrow> (string \<times> pyval) list" where
  "agent_states t =
     (agent_key (team_id t) ''group_chat_manager'', manager_state t)
     # (agent_key (team_id t) ''collect_output_messages'', PDict [])
     # map (participant_entry (team_id t)) (participants t)"

definition save_state_team :: "team \<Rightarrow> pyval" where
  "save_state_team t =
     PDict [(''type'', PStr ''TeamState''),
            (''version'', PStr ''1.0.0''),
            (''agent_states'', PDict (agent_states t)),
            (''team_id'', PStr (team_id t))]"

text \<open>
  A Python dictionary has one item for each key. The list of \<open>agent_states\<close> is one when
  the participants' names differ from each other and from the two names the team uses
  for itself.
\<close>

definition participant_names :: "team \<Rightarrow> string list" where
  "participant_names t = map (\<lambda>c. agent_name (agent c)) (participants t)"

definition unique_names :: "team \<Rightarrow> bool" where
  "unique_names t =
     distinct (''group_chat_manager'' # ''collect_output_messages'' # participant_names t)"

subsection \<open>Loading\<close>

text \<open>
  Modelled from the spec: \<^verbatim>\<open>load_state\<close> of an agent and of a team, which the library
  defines. The specification and the notebook say only that it loads back what
  \<^verbatim>\<open>save_state\<close> returned, so the model reads each field that \<^verbatim>\<open>save_state\<close> writes
  and puts it where it came from; the configuration of the component that loads (its
  name, its system message, its participants) stays. A state that lacks a field, or has
  a value of another shape in it, is rejected (\<open>None\<close>). A team takes the team id from
  the state and looks its participants up under the keys made with that id.
\<close>

fun load_list :: "(pyval \<Rightarrow> 'a option) \<Rightarrow> pyval list \<Rightarrow> 'a list option" where
  "load_list ld [] = Some []"
| "load_list ld (v # vs) =
     (case ld v of None \<Rightarrow> None
      | Some x \<Rightarrow> (case load_list ld vs of None \<Rightarrow> None | Some xs \<Rightarrow> Some (x # xs)))"

fun load_list_field :: "(pyval \<Rightarrow> 'a option) \<Rightarrow> pyval option \<Rightarrow> 'a list option" where
  "load_list_field ld (Some (PList vs)) = load_list ld vs"
| "load_list_field ld v = None"

fun load_llm_fields :: "pyval option \<Rightarrow> pyval option \<Rightarrow> pyval option \<Rightarrow> llm_message option" where
  "load_llm_fields (Some (PStr c)) (Some (PStr s)) (Some (PStr t)) =
     (if t = ''UserMessage'' then Some (UserMessage c s)
      else if t = ''AssistantMessage'' then Some (AssistantMessage c s)
      else None)"
| "load_llm_fields c s t = None"

definition load_llm :: "pyval \<Rightarrow> llm_message option" where
  "load_llm v = load_llm_fields (get v ''content'') (get v ''source'') (get v ''type'')"

fun load_usage :: "pyval option \<Rightarrow> (int \<times> int) option option" where
  "load_usage (Some PNone) = Some None"
| "load_usage (Some (PDict kvs)) =
     (case (map_of kvs ''prompt_tokens'', map_of kvs ''completion_tokens'') of
        (Some (PInt p), Some (PInt c)) \<Rightarrow> Some (Some (p, c))
      | _ \<Rightarrow> None)"
| "load_usage v = None"

fun load_chat_fields ::
  "pyval option \<Rightarrow> (int \<times> int) option option \<Rightarrow> pyval option \<Rightarrow> pyval option \<Rightarrow> chat_message option" where
  "load_chat_fields (Some (PStr s)) (Some u) (Some (PStr c)) (Some (PStr t)) =
     (if t = ''TextMessage'' then Some (TextMessage s u c) else None)"
| "load_chat_fields s u c t = None"

definition load_chat :: "pyval \<Rightarrow> chat_message option" where
  "load_chat v =
     load_chat_fields (get v ''source'') (load_usage (get v ''models_usage'')) (get v ''content'')
       (get v ''type'')"

definition load_state_agent :: "agent \<Rightarrow> pyval \<Rightarrow> agent option" where
  "load_state_agent a st =
     map_option (\<lambda>ms. a\<lparr>model_context := ms\<rparr>) (load_list_field load_llm (get st ''llm_messages''))"

fun load_container_fields :: "container \<Rightarrow> agent option \<Rightarrow> chat_message list option \<Rightarrow> container option" where
  "load_container_fields c (Some a) (Some buf) = Some (c\<lparr>agent := a, message_buffer := buf\<rparr>)"
| "load_container_fields c a buf = None"

fun load_container :: "container \<Rightarrow> pyval option \<Rightarrow> container option" where
  "load_container c (Some st) =
     load_container_fields c
       (Option.bind (get st ''agent_state'') (load_state_agent (agent c)))
       (load_list_field load_chat (get st ''message_buffer''))"
| "load_container c None = None"

fun load_containers :: "string \<Rightarrow> pyval \<Rightarrow> container list \<Rightarrow> container list option" where
  "load_containers tid sts [] = Some []"
| "load_containers tid sts (c # cs) =
     (case load_container c (get sts (agent_key tid (agent_name (agent c)))) of
        None \<Rightarrow> None
      | Some c' \<Rightarrow> (case load_containers tid sts cs of None \<Rightarrow> None | Some cs' \<Rightarrow> Some (c' # cs')))"

fun load_manager_fields ::
  "team \<Rightarrow> chat_message list option \<Rightarrow> pyval option \<Rightarrow> pyval option \<Rightarrow> team option" where
  "load_manager_fields t (Some thread) (Some (PInt turn)) (Some (PInt nxt)) =
     Some (t\<lparr>message_thread := thread, current_turn := turn, next_speaker_index := nxt\<rparr>)"
| "load_manager_fields t thread turn nxt = None"

fun load_manager :: "team \<Rightarrow> pyval option \<Rightarrow> team option" where
  "load_manager t (Some st) =
     load_manager_fields t (load_list_field load_chat (get st ''message_thread''))
       (get st ''current_turn'') (get st ''next_speaker_index'')"
| "load_manager t None = None"

fun load_team_fields :: "team \<Rightarrow> pyval option \<Rightarrow> pyval option \<Rightarrow> team option" where
  "load_team_fields t (Some (PStr tid)) (Some sts) =
     (case load_containers tid sts (participants t) of
        None \<Rightarrow> None
      | Some cs \<Rightarrow>
          load_manager (t\<lparr>team_id := tid, participants := cs\<rparr>)
            (get sts (agent_key tid ''group_chat_manager'')))"
| "load_team_fields t tid sts = None"

definition load_state_team :: "team \<Rightarrow> pyval \<Rightarrow> team option" where
  "load_state_team t st = load_team_fields t (get st ''team_id'') (get st ''agent_states'')"

text \<open>
  What loading the container of \<open>c\<close> into \<open>c'\<close> gives: the context and the buffer of \<open>c\<close>
  under the configuration of \<open>c'\<close>. A team loads its containers one by one, in order.
\<close>

definition restore :: "container \<Rightarrow> container \<Rightarrow> container" where
  "restore c' c =
     c'\<lparr>agent := (agent c')\<lparr>model_context := model_context (agent c)\<rparr>,
        message_buffer := message_buffer c\<rparr>"

definition restore_all :: "container list \<Rightarrow> container list \<Rightarrow> container list" where
  "restore_all cs' cs = map2 restore cs' cs"

subsection \<open>The agent and the team of the recorded run\<close>

text \<open>
  The agent when cell 2 saves it: it has been sent the message of line 54 and has
  answered with the poem of lines 29 to 31. The team when cell 4 saves it: it has run
  the task of line 169, and the agent has answered with the poem of lines 144 to 146,
  for 29 prompt tokens and 34 completion tokens (line 147).
\<close>

definition recorded_agent :: agent where
  "recorded_agent =
     \<lparr>agent_name = ''assistant_agent'', system_message = ''You are a helpful assistant'',
      model_context =
        [UserMessage ''Write a 3 line poem on lake tangayika'' ''user'',
         AssistantMessage poem1 ''assistant_agent'']\<rparr>"

definition recorded_team :: team where
  "recorded_team =
     \<lparr>team_id = printed_team_id,
      participants =
        [\<lparr>agent = \<lparr>agent_name = ''assistant_agent'', system_message = ''You are a helpful assistant'',
                    model_context = [UserMessage poem_task ''user'', AssistantMessage poem2 ''assistant_agent'']\<rparr>,
          message_buffer = []\<rparr>],
      message_thread =
        [TextMessage ''user'' None poem_task, TextMessage ''assistant_agent'' (Some (29, 34)) poem2],
      current_turn = 0, next_speaker_index = 0\<rparr>"

text \<open>The new team of cell 7, over an agent of the same name, under an id of its own.\<close>

definition new_agent_team :: team where
  "new_agent_team =
     RoundRobinGroupChat ''00000000-0000-0000-0000-000000000000''
       [AssistantAgent ''assistant_agent'' ''You are a helpful assistant'']"

section \<open>Properties of the program text\<close>

text \<open>
  Claim C4, as the specification states it: exactly one call in the program receives a
  cancellation token. The program has two such calls, so the number is not one.
\<close>

theorem single_token_call_counterexample: "length (token_calls notebook) \<noteq> 1"
  by code_simp

text \<open>
  Claim C4, amended. Exactly two calls receive a cancellation token: \<^verbatim>\<open>on_messages\<close> on
  \<^verbatim>\<open>assistant_agent\<close> (line 53) and \<^verbatim>\<open>on_messages\<close> on \<^verbatim>\<open>new_assistant_agent\<close>
  (line 102). Each takes, as its last argument, a token built by \<^verbatim>\<open>CancellationToken()\<close>
  in the argument list itself, so built before the call is made and held by no variable.
  No other cancellation logic appears: the program builds no third token, names the
  class nowhere else in its expressions (its import apart), and names no method of a token.
\<close>

theorem token_calls_notebook:
  "map callee (token_calls notebook) =
     [Attribute (Name ''assistant_agent'') ''on_messages'',
      Attribute (Name ''new_assistant_agent'') ''on_messages'']
   \<and> map (\<lambda>c. filter (is_token (token_vars notebook)) (map arg_value (call_args c)))
         (token_calls notebook) = [[token_ctor], [token_ctor]]
   \<and> map (\<lambda>c. last (call_args c)) (token_calls notebook) = [token_ctor, token_ctor]
   \<and> token_vars notebook = []
   \<and> count_list (all_exprs notebook) token_ctor = 2
   \<and> count_list (all_exprs notebook) (Name ''CancellationToken'') = 2
   \<and> filter names_cancellation (all_exprs notebook) = []"
  by code_simp

text \<open>
  Claim C5. No error path, retry or failure handling appears in the program. No
  exception is caught or raised: there is no \<^verbatim>\<open>try\<close> and no \<^verbatim>\<open>raise\<close>. No result is
  inspected: there is no \<^verbatim>\<open>if\<close>, \<^verbatim>\<open>assert\<close> or \<^verbatim>\<open>while\<close>, and no comparison, boolean
  operation or conditional expression. No call is attempted again: there is no loop and
  no handler, so every statement runs at most once, and only when all before it returned.
  (The two \<^verbatim>\<open>with\<close> statements close their file; they catch nothing.)
\<close>

theorem no_failure_handling:
  "filter is_try (all_stmts notebook) = []
   \<and> filter is_raise (all_stmts notebook) = []
   \<and> filter is_branch (all_stmts notebook) = []
   \<and> filter is_test (all_exprs notebook) = []
   \<and> filter is_loop (all_stmts notebook) = []"
  by code_simp

text \<open>
  Claim C7. The program is a straight-line sequence of calls into the library. It
  defines no function and no class, and has no branch, no loop and no handler, neither as
  a statement nor inside an expression: every statement is an import, an assignment, an
  expression or a \<^verbatim>\<open>with\<close> block of such. Every name it calls is one it imported (the
  library's classes and \<^verbatim>\<open>Console\<close>) or a built-in (\<^verbatim>\<open>print\<close>, \<^verbatim>\<open>open\<close>); the methods it
  calls are \<^verbatim>\<open>on_messages\<close>, \<^verbatim>\<open>close\<close>, \<^verbatim>\<open>save_state\<close>, \<^verbatim>\<open>load_state\<close>, \<^verbatim>\<open>run_stream\<close>,
  \<^verbatim>\<open>reset\<close> and \<^verbatim>\<open>json\<close>'s \<^verbatim>\<open>dump\<close> and \<^verbatim>\<open>load\<close>. Data flows by sequential chaining only:
  every variable a step reads was bound by an earlier step.
\<close>

theorem straight_line_program:
  "filter is_definition (all_stmts notebook) = []
   \<and> filter is_branch (all_stmts notebook) = []
   \<and> filter is_loop (all_stmts notebook) = []
   \<and> filter is_try (all_stmts notebook) = []
   \<and> filter is_control_expr (all_exprs notebook) = []
   \<and> list_all is_simple (all_stmts notebook)
   \<and> list_all (List.member (concat (map imported notebook) @ builtins))
         (concat (map called_name (all_exprs notebook)))
   \<and> remdups (concat (map called_method (all_exprs notebook))) =
         [''on_messages'', ''save_state'', ''reset'', ''dump'', ''load'', ''load_state'',
          ''run_stream'', ''close'']
   \<and> defined_before_use builtins (concat (map flow notebook))"
  by code_simp

text \<open>
  Claim C6. The asynchronous calls of the program are awaited and issued strictly one
  after the other. The program has fifteen \<^verbatim>\<open>await\<close> expressions. Each holds one call,
  each is the whole expression of a statement of its own, and none stands inside another,
  so an awaited call has returned before the next statement starts and no two are in
  flight together. The calls awaited are \<^verbatim>\<open>on_messages\<close>, \<^verbatim>\<open>save_state\<close>, \<^verbatim>\<open>load_state\<close>,
  \<^verbatim>\<open>reset\<close>, \<^verbatim>\<open>close\<close> and \<^verbatim>\<open>Console\<close>, and none of these is ever called without
  \<^verbatim>\<open>await\<close>. The calls made without \<^verbatim>\<open>await\<close> are the constructors, \<^verbatim>\<open>print\<close>,
  \<^verbatim>\<open>open\<close>, \<^verbatim>\<open>json\<close>'s \<^verbatim>\<open>dump\<close> and \<^verbatim>\<open>load\<close>, and \<^verbatim>\<open>run_stream\<close>. The four
  \<^verbatim>\<open>run_stream\<close> calls each build a stream, bound to \<^verbatim>\<open>stream\<close> and consumed by the
  awaited \<^verbatim>\<open>Console\<close> call of the very next statement, which is the only use of that
  variable. Nothing is shared under contention: the program names no interface of
  \<^verbatim>\<open>asyncio\<close>, threads or processes that would start work beside it, and no \<^verbatim>\<open>await\<close>
  stands in a \<^verbatim>\<open>with\<close> block, so the file is never open across a suspension. What the
  library does inside an awaited call is not part of the program.
\<close>

theorem awaited_sequentially:
  "length (awaits notebook) = 15
   \<and> list_all is_call (awaited notebook)
   \<and> statement_awaits notebook = awaits notebook
   \<and> nested_awaits notebook = []
   \<and> remdups (concat (map call_name (awaited notebook))) =
         [''on_messages'', ''save_state'', ''reset'', ''load_state'', ''Console'', ''close'']
   \<and> remdups (concat (map call_name (unawaited notebook))) =
         [''TextMessage'', ''CancellationToken'', ''OpenAIChatCompletionClient'',
          ''AssistantAgent'', ''print'', ''dump'', ''open'', ''load'', ''RoundRobinGroupChat'',
          ''MaxMessageTermination'', ''run_stream'']
   \<and> filter (List.member (concat (map call_name (awaited notebook))))
         (concat (map call_name (unawaited notebook))) = []
   \<and> length (awaited notebook) + length (unawaited notebook) =
         length (filter is_call (all_exprs notebook))
   \<and> length (filter is_stream_call (all_exprs notebook)) = 4
   \<and> length (filter binds_stream notebook) = 4
   \<and> streams_consumed notebook
   \<and> count_list (all_exprs notebook) (Name ''stream'') = 4
   \<and> awaits_in_with notebook = []
   \<and> filter (List.member concurrency_names) (words notebook) = []"
  by code_simp

section \<open>Properties of the modelled state interface\<close>

subsection \<open>The model prints the recorded snapshots\<close>

lemma save_state_agent_recorded: "save_state_agent recorded_agent = agent_state_printed"
  by (simp add: save_state_agent_def recorded_agent_def agent_state_printed_def)

lemma save_state_team_recorded: "save_state_team recorded_team = team_state_printed"
  by (simp add: save_state_team_def recorded_team_def team_state_printed_def agent_states_def
      manager_state_def participant_entry_def container_state_def save_state_agent_def agent_key_def)

subsection \<open>The fields of a snapshot\<close>

lemma is_dict_dump_llm: "is_dict (dump_llm m)"
  by (cases m) simp_all

lemma dicts_dump_llm: "list_all is_dict (map dump_llm ms)"
  by (induction ms) (simp_all add: is_dict_dump_llm)

lemma dicts_agent_states: "list_all is_dict (map snd (agent_states t))"
proof -
  have "list_all is_dict (map snd (map (participant_entry tid) cs))" for tid cs
    by (induction cs) (simp_all add: participant_entry_def container_state_def)
  then show ?thesis
    by (simp add: agent_states_def manager_state_def)
qed

text \<open>
  Claim C3. Every snapshot that \<^verbatim>\<open>save_state\<close> returns is a nested key-value
  structure. For every agent, the snapshot is a dictionary with the fields \<^verbatim>\<open>type\<close>,
  \<^verbatim>\<open>version\<close> and \<^verbatim>\<open>llm_messages\<close>, in this order and no other, and \<^verbatim>\<open>llm_messages\<close> is
  a list of dictionaries. For every team, the snapshot is a dictionary with the fields
  \<^verbatim>\<open>type\<close>, \<^verbatim>\<open>version\<close>, \<^verbatim>\<open>agent_states\<close> and \<^verbatim>\<open>team_id\<close>, and \<^verbatim>\<open>agent_states\<close> is a
  dictionary of dictionaries. The two snapshots that the notebook prints (lines 69 and
  240) are the snapshots of the agent and of the team of the recorded run, and they, and
  the agent's snapshot inside the team's, have these fields.
\<close>

theorem snapshot_fields:
  "is_dict (save_state_agent a)
   \<and> keys (save_state_agent a) = [''type'', ''version'', ''llm_messages'']
   \<and> dicts_in_list (get (save_state_agent a) ''llm_messages'')
   \<and> is_dict (save_state_team t)
   \<and> keys (save_state_team t) = [''type'', ''version'', ''agent_states'', ''team_id'']
   \<and> dicts_in_dict (get (save_state_team t) ''agent_states'')
   \<and> save_state_agent recorded_agent = agent_state_printed
   \<and> keys agent_state_printed = [''type'', ''version'', ''llm_messages'']
   \<and> dicts_in_list (get agent_state_printed ''llm_messages'')
   \<and> save_state_team recorded_team = team_state_printed
   \<and> keys team_state_printed = [''type'', ''version'', ''agent_states'', ''team_id'']
   \<and> dicts_in_dict (get team_state_printed ''agent_states'')
   \<and> map_option keys nested_agent_state = Some [''type'', ''version'', ''llm_messages'']
   \<and> dicts_in_list (Option.bind nested_agent_state (\<lambda>st. get st ''llm_messages''))"
proof -
  have agent: "is_dict (save_state_agent a)
      \<and> keys (save_state_agent a) = [''type'', ''version'', ''llm_messages'']
      \<and> dicts_in_list (get (save_state_agent a) ''llm_messages'')"
    by (simp add: save_state_agent_def keys_def get_def dicts_dump_llm)
  have team: "is_dict (save_state_team t)
      \<and> keys (save_state_team t) = [''type'', ''version'', ''agent_states'', ''team_id'']
      \<and> dicts_in_dict (get (save_state_team t) ''agent_states'')"
    by (simp add: save_state_team_def keys_def get_def dicts_agent_states)
  have printed: "keys agent_state_printed = [''type'', ''version'', ''llm_messages'']
      \<and> dicts_in_list (get agent_state_printed ''llm_messages'')
      \<and> keys team_state_printed = [''type'', ''version'', ''agent_states'', ''team_id'']
      \<and> dicts_in_dict (get team_state_printed ''agent_states'')
      \<and> map_option keys nested_agent_state = Some [''type'', ''version'', ''llm_messages'']
      \<and> dicts_in_list (Option.bind nested_agent_state (\<lambda>st. get st ''llm_messages''))"
    by code_simp
  from agent team printed save_state_agent_recorded save_state_team_recorded show ?thesis
    by blast
qed

subsection \<open>Reading back what was written\<close>

lemma load_llm_dump: "load_llm (dump_llm m) = Some m"
  by (cases m) (simp_all add: load_llm_def get_def)

lemma load_chat_dump: "load_chat (dump_chat m) = Some m"
proof (cases m)
  case (TextMessage s u c)
  then show ?thesis by (cases u) (auto simp add: load_chat_def get_def)
qed

lemma load_list_map:
  assumes "\<And>x. ld (dm x) = Some x"
  shows "load_list ld (map dm xs) = Some xs"
  by (induction xs) (simp_all add: assms)

lemma load_state_agent_save:
  "load_state_agent b (save_state_agent a) = Some (b\<lparr>model_context := model_context a\<rparr>)"
  by (simp add: load_state_agent_def save_state_agent_def get_def load_list_map load_llm_dump)

lemma agent_key_inject: "agent_key tid n = agent_key tid m \<longleftrightarrow> n = m"
  by (simp add: agent_key_def)

lemma map_of_participant_entry:
  "c \<in> set cs \<Longrightarrow> distinct (map (\<lambda>c. agent_name (agent c)) cs) \<Longrightarrow>
   map_of (map (participant_entry tid) cs) (agent_key tid (agent_name (agent c))) = Some (container_state c)"
proof (induction cs)
  case Nil
  then show ?case by simp
next
  case (Cons d cs)
  show ?case
  proof (cases "c = d")
    case True
    then show ?thesis by (simp add: participant_entry_def)
  next
    case False
    with Cons.prems have mem: "c \<in> set cs" and dis: "distinct (map (\<lambda>c. agent_name (agent c)) cs)"
      and ne: "agent_name (agent d) \<noteq> agent_name (agent c)"
      by auto
    from ne have "fst (participant_entry tid d) \<noteq> agent_key tid (agent_name (agent c))"
      by (simp add: participant_entry_def agent_key_inject)
    then show ?thesis using Cons.IH [OF mem dis]
      by (cases "participant_entry tid d") auto
  qed
qed

lemma get_participant:
  assumes "unique_names t" and "c \<in> set (participants t)"
  shows "get (PDict (agent_states t)) (agent_key (team_id t) (agent_name (agent c))) =
         Some (container_state c)"
proof -
  from assms(2) have mem: "agent_name (agent c) \<in> set (participant_names t)"
    by (simp add: participant_names_def)
  from assms(1) mem have n1: "agent_name (agent c) \<noteq> ''group_chat_manager''"
    and n2: "agent_name (agent c) \<noteq> ''collect_output_messages''"
    unfolding unique_names_def by auto
  from assms(1) have dis: "distinct (map (\<lambda>c. agent_name (agent c)) (participants t))"
    by (simp add: unique_names_def participant_names_def)
  from n1 n2 show ?thesis
    using map_of_participant_entry [OF assms(2) dis, of "team_id t"]
    by (simp add: get_def agent_states_def agent_key_inject)
qed

lemma get_manager:
  "get (PDict (agent_states t)) (agent_key (team_id t) ''group_chat_manager'') = Some (manager_state t)"
  by (simp add: get_def agent_states_def)

lemma load_container_state:
  "load_container c' (Some (container_state c)) = Some (restore c' c)"
  by (simp add: container_state_def get_def load_state_agent_save load_list_map load_chat_dump
      restore_def)

lemma load_containers_entries:
  assumes "length cs' = length cs"
    and "\<And>c' c. (c', c) \<in> set (zip cs' cs) \<Longrightarrow>
           get sts (agent_key tid (agent_name (agent c'))) = Some (container_state c)"
  shows "load_containers tid sts cs' = Some (restore_all cs' cs)"
  using assms unfolding restore_all_def
proof (induction cs' cs rule: list_induct2)
  case Nil
  then show ?case by simp
next
  case (Cons c' cs' c cs)
  have hd: "get sts (agent_key tid (agent_name (agent c'))) = Some (container_state c)"
    by (rule Cons.prems) simp
  have tl: "load_containers tid sts cs' = Some (map2 restore cs' cs)"
    by (rule Cons.IH) (simp add: Cons.prems)
  show ?case by (simp add: hd tl load_container_state del: load_container.simps)
qed

lemma load_manager_state:
  "load_manager u (Some (manager_state t)) =
   Some (u\<lparr>message_thread := message_thread t, current_turn := current_turn t,
           next_speaker_index := next_speaker_index t\<rparr>)"
  by (simp add: manager_state_def get_def load_list_map load_chat_dump)

lemma load_state_team_save:
  assumes uniq: "unique_names t" and same: "participant_names t' = participant_names t"
  shows "load_state_team t' (save_state_team t) =
         Some (t'\<lparr>team_id := team_id t,
                  participants := restore_all (participants t') (participants t),
                  message_thread := message_thread t, current_turn := current_turn t,
                  next_speaker_index := next_speaker_index t\<rparr>)"
proof -
  from same have len: "length (participants t') = length (participants t)"
    by (metis participant_names_def length_map)
  have entry: "get (PDict (agent_states t)) (agent_key (team_id t) (agent_name (agent c'))) =
               Some (container_state c)"
    if "(c', c) \<in> set (zip (participants t') (participants t))" for c' c
  proof -
    from that obtain i where i: "i < length (participants t)"
      and c': "c' = participants t' ! i" and c: "c = participants t ! i"
      using len by (auto simp add: set_zip)
    from same i len have "agent_name (agent c') = agent_name (agent c)"
      unfolding participant_names_def c' c by (metis nth_map)
    moreover from i c have "c \<in> set (participants t)" by simp
    ultimately show ?thesis using get_participant [OF uniq] by simp
  qed
  have cs: "load_containers (team_id t) (PDict (agent_states t)) (participants t') =
            Some (restore_all (participants t') (participants t))"
    by (rule load_containers_entries [OF len entry])
  have tid: "get (save_state_team t) ''team_id'' = Some (PStr (team_id t))"
    by (simp add: save_state_team_def get_def)
  have sts: "get (save_state_team t) ''agent_states'' = Some (PDict (agent_states t))"
    by (simp add: save_state_team_def get_def)
  show ?thesis
    by (simp add: load_state_team_def tid sts cs get_manager load_manager_state
        del: load_manager.simps)
qed

lemma contexts_restore_all:
  "length cs' = length cs \<Longrightarrow>
   map (\<lambda>c. model_context (agent c)) (restore_all cs' cs) = map (\<lambda>c. model_context (agent c)) cs"
  unfolding restore_all_def
  by (induction cs' cs rule: list_induct2) (simp_all add: restore_def)

lemma names_restore_all:
  "length cs' = length cs \<Longrightarrow>
   map (\<lambda>c. agent_name (agent c)) (restore_all cs' cs) = map (\<lambda>c. agent_name (agent c)) cs'"
  unfolding restore_all_def
  by (induction cs' cs rule: list_induct2) (simp_all add: restore_def)

lemma participant_entry_restore:
  "agent_name (agent c') = agent_name (agent c) \<Longrightarrow>
   participant_entry tid (restore c' c) = participant_entry tid c"
  by (simp add: participant_entry_def restore_def container_state_def save_state_agent_def)

lemma entries_restore_all:
  "length cs' = length cs \<Longrightarrow>
   map (\<lambda>c. agent_name (agent c)) cs' = map (\<lambda>c. agent_name (agent c)) cs \<Longrightarrow>
   map (participant_entry tid) (restore_all cs' cs) = map (participant_entry tid) cs"
  unfolding restore_all_def
  by (induction cs' cs rule: list_induct2) (simp_all add: participant_entry_restore)

lemma save_state_team_load:
  assumes uniq: "unique_names t" and same: "participant_names t' = participant_names t"
  shows "map_option save_state_team (load_state_team t' (save_state_team t)) =
         Some (save_state_team t)"
proof -
  from same have len: "length (participants t') = length (participants t)"
    by (metis participant_names_def length_map)
  from same have names:
    "map (\<lambda>c. agent_name (agent c)) (participants t') =
     map (\<lambda>c. agent_name (agent c)) (participants t)"
    by (simp add: participant_names_def)
  have "save_state_team
          (t'\<lparr>team_id := team_id t,
              participants := restore_all (participants t') (participants t),
              message_thread := message_thread t, current_turn := current_turn t,
              next_speaker_index := next_speaker_index t\<rparr>) = save_state_team t"
    by (simp add: save_state_team_def agent_states_def manager_state_def
        entries_restore_all [OF len names])
  with load_state_team_save [OF uniq same] show ?thesis
    by simp
qed

lemma distinct_agent_keys:
  "distinct ns \<Longrightarrow> distinct (map (agent_key tid) ns)"
  by (simp add: distinct_map inj_on_def agent_key_inject)

lemma keys_agent_states:
  "map fst (agent_states t) =
   map (agent_key (team_id t))
     (''group_chat_manager'' # ''collect_output_messages'' # participant_names t)"
  by (simp add: agent_states_def participant_names_def participant_entry_def comp_def)

lemma unique_names_recorded: "unique_names recorded_team"
  by code_simp

lemma same_names_new_agent_team: "participant_names new_agent_team = participant_names recorded_team"
  by code_simp

subsection \<open>Loading restores the conversation\<close>

text \<open>
  Claim C2. Loading the state that \<^verbatim>\<open>save_state\<close> produced restores the saved
  conversation. For every agent \<open>a\<close> and every agent \<open>b\<close> that loads the state of \<open>a\<close>
  (a new \<^verbatim>\<open>AssistantAgent\<close> among them): the load succeeds, the context of the result is
  the context of \<open>a\<close>, and saving the result returns the same snapshot, \<^verbatim>\<open>llm_messages\<close>
  included. For every team \<open>t\<close> and every team \<open>t'\<close> over participants of the same names
  (a new \<^verbatim>\<open>RoundRobinGroupChat\<close> over the same participants among them): the load
  succeeds, the message thread of the result is that of \<open>t\<close>, each participant has the
  context of its counterpart in \<open>t\<close>, and saving the result returns the same snapshot.
  What the next run sends to the model is outside the model.
\<close>

theorem load_state_restores_history:
  assumes "unique_names t" and "participant_names t' = participant_names t"
  shows
    "map_option model_context (load_state_agent b (save_state_agent a)) = Some (model_context a)
     \<and> map_option save_state_agent (load_state_agent b (save_state_agent a)) =
         Some (save_state_agent a)
     \<and> map_option message_thread (load_state_team t' (save_state_team t)) =
         Some (message_thread t)
     \<and> map_option (\<lambda>u. map (\<lambda>c. model_context (agent c)) (participants u))
           (load_state_team t' (save_state_team t)) =
         Some (map (\<lambda>c. model_context (agent c)) (participants t))
     \<and> map_option save_state_team (load_state_team t' (save_state_team t)) =
         Some (save_state_team t)"
proof -
  from assms(2) have len: "length (participants t') = length (participants t)"
    by (metis participant_names_def length_map)
  have agent1: "map_option model_context (load_state_agent b (save_state_agent a)) =
                Some (model_context a)"
    by (simp add: load_state_agent_save)
  have agent2: "map_option save_state_agent (load_state_agent b (save_state_agent a)) =
                Some (save_state_agent a)"
  proof -
    have "save_state_agent (b\<lparr>model_context := model_context a\<rparr>) = save_state_agent a"
      by (simp add: save_state_agent_def)
    with load_state_agent_save [of b a] show ?thesis
      by simp
  qed
  have team1: "map_option message_thread (load_state_team t' (save_state_team t)) =
               Some (message_thread t)"
    by (simp add: load_state_team_save [OF assms])
  have team2: "map_option (\<lambda>u. map (\<lambda>c. model_context (agent c)) (participants u))
                 (load_state_team t' (save_state_team t)) =
               Some (map (\<lambda>c. model_context (agent c)) (participants t))"
    by (simp add: load_state_team_save [OF assms] contexts_restore_all [OF len])
  from agent1 agent2 team1 team2 save_state_team_load [OF assms] show ?thesis
    by blast
qed

text \<open>
  The theorem at the team of the recorded run, loaded into the new team of cell 7, and
  at the agent of the recorded run, loaded into the new agent of cell 3.
\<close>

theorem load_state_restores_history_witness:
  "unique_names recorded_team
   \<and> participant_names new_agent_team = participant_names recorded_team
   \<and> map_option model_context
         (load_state_agent (AssistantAgent ''assistant_agent'' ''You are a helpful assistant'')
            (save_state_agent recorded_agent)) =
       Some (model_context recorded_agent)
   \<and> map_option message_thread (load_state_team new_agent_team (save_state_team recorded_team)) =
       Some (message_thread recorded_team)
   \<and> map_option save_state_team (load_state_team new_agent_team (save_state_team recorded_team)) =
       Some (save_state_team recorded_team)"
  using load_state_restores_history [OF unique_names_recorded same_names_new_agent_team]
    unique_names_recorded same_names_new_agent_team
  by blast

subsection \<open>A team's state holds the state of each of its agents\<close>

text \<open>
  Claim C8. For every team whose participants' names differ from each other and from the
  team's own two entries, the dictionary that the team's \<^verbatim>\<open>save_state\<close> returns has,
  under \<^verbatim>\<open>agent_states\<close>, the team's two orchestration entries (the group chat manager
  and the output collector) and then one entry for each participant, each under a key of
  its own; the entry of a participant holds, under \<^verbatim>\<open>agent_state\<close>, what that agent's own
  \<^verbatim>\<open>save_state\<close> returns.
\<close>

theorem team_state_holds_every_agent:
  assumes "unique_names t"
  shows
    "get (save_state_team t) ''agent_states'' = Some (PDict (agent_states t))
     \<and> map fst (agent_states t) =
         agent_key (team_id t) ''group_chat_manager''
         # agent_key (team_id t) ''collect_output_messages''
         # map (agent_key (team_id t)) (participant_names t)
     \<and> distinct (map fst (agent_states t))
     \<and> list_all
         (\<lambda>c. Option.bind
                 (get (PDict (agent_states t)) (agent_key (team_id t) (agent_name (agent c))))
                 (\<lambda>st. get st ''agent_state'') =
               Some (save_state_agent (agent c)))
         (participants t)"
proof -
  have field: "get (save_state_team t) ''agent_states'' = Some (PDict (agent_states t))"
    by (simp add: save_state_team_def get_def)
  have ks: "map fst (agent_states t) =
              agent_key (team_id t) ''group_chat_manager''
              # agent_key (team_id t) ''collect_output_messages''
              # map (agent_key (team_id t)) (participant_names t)"
    by (simp add: keys_agent_states)
  from assms have dis: "distinct (map fst (agent_states t))"
    unfolding keys_agent_states unique_names_def by (rule distinct_agent_keys)
  have each: "Option.bind
                (get (PDict (agent_states t)) (agent_key (team_id t) (agent_name (agent c))))
                (\<lambda>st. get st ''agent_state'') =
              Some (save_state_agent (agent c))"
    if "c \<in> set (participants t)" for c
    by (simp add: get_participant [OF assms that]) (simp add: container_state_def get_def)
  then have every: "list_all
         (\<lambda>c. Option.bind
                 (get (PDict (agent_states t)) (agent_key (team_id t) (agent_name (agent c))))
                 (\<lambda>st. get st ''agent_state'') =
               Some (save_state_agent (agent c)))
         (participants t)"
    by (simp add: list_all_iff)
  from field ks dis every show ?thesis by blast
qed

text \<open>
  The theorem at the team of the recorded run, whose snapshot is the printed one: its
  only agent, \<^verbatim>\<open>assistant_agent\<close>, has the third entry.
\<close>

theorem team_state_holds_every_agent_witness:
  "unique_names recorded_team
   \<and> get team_state_printed ''agent_states'' = Some (PDict (agent_states recorded_team))
   \<and> map fst (agent_states recorded_team) =
       [''group_chat_manager/'' @ printed_team_id,
        ''collect_output_messages/'' @ printed_team_id,
        ''assistant_agent/'' @ printed_team_id]
   \<and> distinct (map fst (agent_states recorded_team))"
proof -
  note holds = team_state_holds_every_agent [OF unique_names_recorded]
  from holds have field:
    "get team_state_printed ''agent_states'' = Some (PDict (agent_states recorded_team))"
    by (simp add: save_state_team_recorded)
  from holds have "map fst (agent_states recorded_team) =
      agent_key (team_id recorded_team) ''group_chat_manager''
      # agent_key (team_id recorded_team) ''collect_output_messages''
      # map (agent_key (team_id recorded_team)) (participant_names recorded_team)"
    by blast
  then have ks: "map fst (agent_states recorded_team) =
      [''group_chat_manager/'' @ printed_team_id,
       ''collect_output_messages/'' @ printed_team_id,
       ''assistant_agent/'' @ printed_team_id]"
    by (simp add: agent_key_def participant_names_def recorded_team_def)
  from holds have dis: "distinct (map fst (agent_states recorded_team))"
    by blast
  from unique_names_recorded field ks dis show ?thesis
    by blast
qed

end
